theory Spec2Isabelle
  imports Main
begin

section \<open>Provider registry of \<open>cli/utils.py\<close>\<close>

subsection \<open>Strings\<close>

text \<open>
  A Python \<open>str\<close> is a sequence of Unicode code points; a code point is a natural
  number. String literals of the source are ASCII and are written through \<open>pystr\<close>.
\<close>

type_synonym codepoint = nat
type_synonym str = "codepoint list"

definition pystr :: "string \<Rightarrow> str" where
  "pystr cs = map of_char cs"

definition is_ascii :: "codepoint \<Rightarrow> bool" where
  "is_ascii c = (c < 128)"

definition ascii_lower :: "codepoint \<Rightarrow> codepoint" where
  "ascii_lower c = (if 65 \<le> c \<and> c \<le> 90 then c + 32 else c)"

text \<open>
  \<open>str.lower()\<close>. On a string of ASCII code points it maps \<open>A..Z\<close> to \<open>a..z\<close> and
  keeps every other code point. On a string with a code point outside ASCII it follows
  the Unicode case tables of the interpreter (full case mapping, with the rule for a
  final sigma, so it is not a map over single code points); these tables are not part
  of the repository and are the parameter \<open>U\<close>, the lowercasing of such strings.
\<close>

definition str_lower :: "(str \<Rightarrow> str) \<Rightarrow> str \<Rightarrow> str" where
  "str_lower U s = (if list_all is_ascii s then map ascii_lower s else U s)"

subsection \<open>Module state and errors\<close>

text \<open>
  The three module-level tables. The functions read them as globals at each call, so
  they are the state the functions run in; a function returns its outcome together
  with the state it leaves.
\<close>

record globals =
  BASE_URLS :: "str list"
  SHALLOW_AGENT_OPTIONS :: "str \<rightharpoonup> str list"
  DEEP_AGENT_OPTIONS :: "str \<rightharpoonup> str list"

definition module_globals :: globals where
  "module_globals =
     \<lparr> BASE_URLS = [pystr ''OpenAI'', pystr ''Anthropic'', pystr ''DeepSeek''],
       SHALLOW_AGENT_OPTIONS =
         [pystr ''openai'' \<mapsto> [pystr ''gpt-4o-mini''],
          pystr ''anthropic'' \<mapsto> [pystr ''claude-3-haiku''],
          pystr ''deepseek'' \<mapsto> [pystr ''deepseek-chat'']],
       DEEP_AGENT_OPTIONS =
         [pystr ''openai'' \<mapsto> [pystr ''gpt-4o''],
          pystr ''anthropic'' \<mapsto> [pystr ''claude-3-opus''],
          pystr ''deepseek'' \<mapsto> [pystr ''deepseek-reasoner'']] \<rparr>"

text \<open>
  The exceptions a call can end in: \<open>KeyError\<close> with its message, raised by the
  functions themselves, and \<open>IndexError\<close>, which \<open>[0]\<close> raises on an empty list and
  which the \<open>except KeyError\<close> clauses do not catch.
\<close>

datatype py_error = KeyError str | IndexError

type_synonym outcome = "py_error + str"

subsection \<open>The three selectors\<close>

text \<open>
  \<open>providers = {name.lower(): name for name in BASE_URLS}\<close>: the names are entered in
  list order, a later name replacing an earlier one with the same lowercase form.
\<close>

definition providers_of :: "(str \<Rightarrow> str) \<Rightarrow> str list \<Rightarrow> (str \<rightharpoonup> str)" where
  "providers_of U names = foldl (\<lambda>d name. d(str_lower U name \<mapsto> name)) Map.empty names"

definition select_llm_provider :: "(str \<Rightarrow> str) \<Rightarrow> str \<Rightarrow> globals \<Rightarrow> outcome \<times> globals" where
  "select_llm_provider U provider_key g =
     (let providers = providers_of U (BASE_URLS g);
          key = str_lower U provider_key
      in case providers key of
           None \<Rightarrow> (Inl (KeyError (pystr ''Unknown LLM provider: '' @ provider_key)), g)
         | Some name \<Rightarrow> (Inr name, g))"

definition select_shallow_thinking_agent ::
  "(str \<Rightarrow> str) \<Rightarrow> str \<Rightarrow> globals \<Rightarrow> outcome \<times> globals" where
  "select_shallow_thinking_agent U provider_key g =
     (let key = str_lower U provider_key
      in case SHALLOW_AGENT_OPTIONS g key of
           None \<Rightarrow>
             (Inl (KeyError (pystr ''Unknown provider for shallow agent: '' @ provider_key)), g)
         | Some [] \<Rightarrow> (Inl IndexError, g)
         | Some (model # _) \<Rightarrow> (Inr model, g))"

definition select_deep_thinking_agent ::
  "(str \<Rightarrow> str) \<Rightarrow> str \<Rightarrow> globals \<Rightarrow> outcome \<times> globals" where
  "select_deep_thinking_agent U provider_key g =
     (let key = str_lower U provider_key
      in case DEEP_AGENT_OPTIONS g key of
           None \<Rightarrow>
             (Inl (KeyError (pystr ''Unknown provider for deep agent: '' @ provider_key)), g)
         | Some [] \<Rightarrow> (Inl IndexError, g)
         | Some (model # _) \<Rightarrow> (Inr model, g))"

text \<open>The outcome of a call made in the module's state.\<close>

definition llm_provider :: "(str \<Rightarrow> str) \<Rightarrow> str \<Rightarrow> outcome" where
  "llm_provider U k = fst (select_llm_provider U k module_globals)"

definition shallow_agent :: "(str \<Rightarrow> str) \<Rightarrow> str \<Rightarrow> outcome" where
  "shallow_agent U k = fst (select_shallow_thinking_agent U k module_globals)"

definition deep_agent :: "(str \<Rightarrow> str) \<Rightarrow> str \<Rightarrow> outcome" where
  "deep_agent U k = fst (select_deep_thinking_agent U k module_globals)"

subsection \<open>Letter-casings and key sets\<close>

text \<open>
  A string is a letter-casing of a key when it has the key's length and, position by
  position, carries the key's code point or its ASCII capital.
\<close>

definition ascii_upper :: "codepoint \<Rightarrow> codepoint" where
  "ascii_upper c = (if 97 \<le> c \<and> c \<le> 122 then c - 32 else c)"

definition casing_of :: "str \<Rightarrow> str \<Rightarrow> bool" where
  "casing_of key k = list_all2 (\<lambda>c d. d = c \<or> d = ascii_upper c) key k"

definition lowercase_ascii :: "str \<Rightarrow> bool" where
  "lowercase_ascii s = list_all (\<lambda>c. is_ascii c \<and> \<not> (65 \<le> c \<and> c \<le> 90)) s"

definition supported_keys :: "str set" where
  "supported_keys = {pystr ''openai'', pystr ''anthropic'', pystr ''deepseek''}"

definition succeeds :: "outcome \<Rightarrow> bool" where
  "succeeds r = (case r of Inl _ \<Rightarrow> False | Inr _ \<Rightarrow> True)"

subsection \<open>Lowercasing of the interpreter\<close>

text \<open>
  \<open>str.lower()\<close> of CPython on a string that is not ASCII (\<open>do_lower\<close> in
  \<open>Objects/unicodeobject.c\<close>): each code point is replaced by its full lowercase
  mapping, except the capital sigma \<open>U+03A3\<close>, which becomes the final sigma \<open>U+03C2\<close>
  or the small sigma \<open>U+03C3\<close> by its context.

  The lowercase mappings are those of the Unicode Character Database 14.0.0, which
  CPython 3.11 carries. A row \<open>(lo, hi, step, tlo)\<close> maps every \<open>step\<close>-th code point
  from \<open>lo\<close> to \<open>hi\<close>, keeping its distance: \<open>lo\<close> to \<open>tlo\<close>, \<open>lo + step\<close> to
  \<open>tlo + step\<close>, and so on. A code point in no row is its own lowercase. \<open>U+0130\<close> alone
  has a lowercase of two code points.
\<close>

type_synonym case_range = "codepoint \<times> codepoint \<times> nat \<times> codepoint"

definition in_range :: "case_range \<Rightarrow> codepoint \<Rightarrow> bool" where
  "in_range r c = (case r of (lo, hi, step, tlo) \<Rightarrow> lo \<le> c \<and> c \<le> hi \<and> (c - lo) mod step = 0)"

definition range_image :: "case_range \<Rightarrow> codepoint \<Rightarrow> codepoint" where
  "range_image r c = (case r of (lo, hi, step, tlo) \<Rightarrow> tlo + (c - lo))"

fun simple_lower :: "case_range list \<Rightarrow> codepoint \<Rightarrow> codepoint" where
  "simple_lower [] c = c"
| "simple_lower (r # rs) c = (if in_range r c then range_image r c else simple_lower rs c)"

definition non_ascii_ranges :: "case_range list" where
  "non_ascii_ranges =
   [(0xC0, 0xD6, 1, 0xE0), (0xD8, 0xDE, 1, 0xF8), (0x100, 0x12E, 2, 0x101),
    (0x132, 0x136, 2, 0x133), (0x139, 0x147, 2, 0x13A), (0x14A, 0x176, 2, 0x14B),
    (0x178, 0x178, 1, 0xFF), (0x179, 0x17D, 2, 0x17A), (0x181, 0x181, 1, 0x253),
    (0x182, 0x184, 2, 0x183), (0x186, 0x186, 1, 0x254), (0x187, 0x187, 1, 0x188),
    (0x189, 0x18A, 1, 0x256), (0x18B, 0x18B, 1, 0x18C), (0x18E, 0x18E, 1, 0x1DD),
    (0x18F, 0x18F, 1, 0x259), (0x190, 0x190, 1, 0x25B), (0x191, 0x191, 1, 0x192),
    (0x193, 0x193, 1, 0x260), (0x194, 0x194, 1, 0x263), (0x196, 0x196, 1, 0x269),
    (0x197, 0x197, 1, 0x268), (0x198, 0x198, 1, 0x199), (0x19C, 0x19C, 1, 0x26F),
    (0x19D, 0x19D, 1, 0x272), (0x19F, 0x19F, 1, 0x275), (0x1A0, 0x1A4, 2, 0x1A1),
    (0x1A6, 0x1A6, 1, 0x280), (0x1A7, 0x1A7, 1, 0x1A8), (0x1A9, 0x1A9, 1, 0x283),
    (0x1AC, 0x1AC, 1, 0x1AD), (0x1AE, 0x1AE, 1, 0x288), (0x1AF, 0x1AF, 1, 0x1B0),
    (0x1B1, 0x1B2, 1, 0x28A), (0x1B3, 0x1B5, 2, 0x1B4), (0x1B7, 0x1B7, 1, 0x292),
    (0x1B8, 0x1B8, 1, 0x1B9), (0x1BC, 0x1BC, 1, 0x1BD), (0x1C4, 0x1C4, 1, 0x1C6),
    (0x1C5, 0x1C5, 1, 0x1C6), (0x1C7, 0x1C7, 1, 0x1C9), (0x1C8, 0x1C8, 1, 0x1C9),
    (0x1CA, 0x1CA, 1, 0x1CC), (0x1CB, 0x1DB, 2, 0x1CC), (0x1DE, 0x1EE, 2, 0x1DF),
    (0x1F1, 0x1F1, 1, 0x1F3), (0x1F2, 0x1F4, 2, 0x1F3), (0x1F6, 0x1F6, 1, 0x195),
    (0x1F7, 0x1F7, 1, 0x1BF), (0x1F8, 0x21E, 2, 0x1F9), (0x220, 0x220, 1, 0x19E),
    (0x222, 0x232, 2, 0x223), (0x23A, 0x23A, 1, 0x2C65), (0x23B, 0x23B, 1, 0x23C),
    (0x23D, 0x23D, 1, 0x19A), (0x23E, 0x23E, 1, 0x2C66), (0x241, 0x241, 1, 0x242),
    (0x243, 0x243, 1, 0x180), (0x244, 0x244, 1, 0x289), (0x245, 0x245, 1, 0x28C),
    (0x246, 0x24E, 2, 0x247), (0x370, 0x372, 2, 0x371), (0x376, 0x376, 1, 0x377),
    (0x37F, 0x37F, 1, 0x3F3), (0x386, 0x386, 1, 0x3AC), (0x388, 0x38A, 1, 0x3AD),
    (0x38C, 0x38C, 1, 0x3CC), (0x38E, 0x38F, 1, 0x3CD), (0x391, 0x3A1, 1, 0x3B1),
    (0x3A3, 0x3AB, 1, 0x3C3), (0x3CF, 0x3CF, 1, 0x3D7), (0x3D8, 0x3EE, 2, 0x3D9),
    (0x3F4, 0x3F4, 1, 0x3B8), (0x3F7, 0x3F7, 1, 0x3F8), (0x3F9, 0x3F9, 1, 0x3F2),
    (0x3FA, 0x3FA, 1, 0x3FB), (0x3FD, 0x3FF, 1, 0x37B), (0x400, 0x40F, 1, 0x450),
    (0x410, 0x42F, 1, 0x430), (0x460, 0x480, 2, 0x461), (0x48A, 0x4BE, 2, 0x48B),
    (0x4C0, 0x4C0, 1, 0x4CF), (0x4C1, 0x4CD, 2, 0x4C2), (0x4D0, 0x52E, 2, 0x4D1),
    (0x531, 0x556, 1, 0x561), (0x10A0, 0x10C5, 1, 0x2D00), (0x10C7, 0x10C7, 1, 0x2D27),
    (0x10CD, 0x10CD, 1, 0x2D2D), (0x13A0, 0x13EF, 1, 0xAB70), (0x13F0, 0x13F5, 1, 0x13F8),
    (0x1C90, 0x1CBA, 1, 0x10D0), (0x1CBD, 0x1CBF, 1, 0x10FD), (0x1E00, 0x1E94, 2, 0x1E01),
    (0x1E9E, 0x1E9E, 1, 0xDF), (0x1EA0, 0x1EFE, 2, 0x1EA1), (0x1F08, 0x1F0F, 1, 0x1F00),
    (0x1F18, 0x1F1D, 1, 0x1F10), (0x1F28, 0x1F2F, 1, 0x1F20), (0x1F38, 0x1F3F, 1, 0x1F30),
    (0x1F48, 0x1F4D, 1, 0x1F40), (0x1F59, 0x1F5F, 2, 0x1F51), (0x1F68, 0x1F6F, 1, 0x1F60),
    (0x1F88, 0x1F8F, 1, 0x1F80), (0x1F98, 0x1F9F, 1, 0x1F90), (0x1FA8, 0x1FAF, 1, 0x1FA0),
    (0x1FB8, 0x1FB9, 1, 0x1FB0), (0x1FBA, 0x1FBB, 1, 0x1F70), (0x1FBC, 0x1FBC, 1, 0x1FB3),
    (0x1FC8, 0x1FCB, 1, 0x1F72), (0x1FCC, 0x1FCC, 1, 0x1FC3), (0x1FD8, 0x1FD9, 1, 0x1FD0),
    (0x1FDA, 0x1FDB, 1, 0x1F76), (0x1FE8, 0x1FE9, 1, 0x1FE0), (0x1FEA, 0x1FEB, 1, 0x1F7A),
    (0x1FEC, 0x1FEC, 1, 0x1FE5), (0x1FF8, 0x1FF9, 1, 0x1F78), (0x1FFA, 0x1FFB, 1, 0x1F7C),
    (0x1FFC, 0x1FFC, 1, 0x1FF3), (0x2126, 0x2126, 1, 0x3C9), (0x212A, 0x212A, 1, 0x6B),
    (0x212B, 0x212B, 1, 0xE5), (0x2132, 0x2132, 1, 0x214E), (0x2160, 0x216F, 1, 0x2170),
    (0x2183, 0x2183, 1, 0x2184), (0x24B6, 0x24CF, 1, 0x24D0), (0x2C00, 0x2C2F, 1, 0x2C30),
    (0x2C60, 0x2C60, 1, 0x2C61), (0x2C62, 0x2C62, 1, 0x26B), (0x2C63, 0x2C63, 1, 0x1D7D),
    (0x2C64, 0x2C64, 1, 0x27D), (0x2C67, 0x2C6B, 2, 0x2C68), (0x2C6D, 0x2C6D, 1, 0x251),
    (0x2C6E, 0x2C6E, 1, 0x271), (0x2C6F, 0x2C6F, 1, 0x250), (0x2C70, 0x2C70, 1, 0x252),
    (0x2C72, 0x2C72, 1, 0x2C73), (0x2C75, 0x2C75, 1, 0x2C76), (0x2C7E, 0x2C7F, 1, 0x23F),
    (0x2C80, 0x2CE2, 2, 0x2C81), (0x2CEB, 0x2CED, 2, 0x2CEC), (0x2CF2, 0x2CF2, 1, 0x2CF3),
    (0xA640, 0xA66C, 2, 0xA641), (0xA680, 0xA69A, 2, 0xA681), (0xA722, 0xA72E, 2, 0xA723),
    (0xA732, 0xA76E, 2, 0xA733), (0xA779, 0xA77B, 2, 0xA77A), (0xA77D, 0xA77D, 1, 0x1D79),
    (0xA77E, 0xA786, 2, 0xA77F), (0xA78B, 0xA78B, 1, 0xA78C), (0xA78D, 0xA78D, 1, 0x265),
    (0xA790, 0xA792, 2, 0xA791), (0xA796, 0xA7A8, 2, 0xA797), (0xA7AA, 0xA7AA, 1, 0x266),
    (0xA7AB, 0xA7AB, 1, 0x25C), (0xA7AC, 0xA7AC, 1, 0x261), (0xA7AD, 0xA7AD, 1, 0x26C),
    (0xA7AE, 0xA7AE, 1, 0x26A), (0xA7B0, 0xA7B0, 1, 0x29E), (0xA7B1, 0xA7B1, 1, 0x287),
    (0xA7B2, 0xA7B2, 1, 0x29D), (0xA7B3, 0xA7B3, 1, 0xAB53), (0xA7B4, 0xA7C2, 2, 0xA7B5),
    (0xA7C4, 0xA7C4, 1, 0xA794), (0xA7C5, 0xA7C5, 1, 0x282), (0xA7C6, 0xA7C6, 1, 0x1D8E),
    (0xA7C7, 0xA7C9, 2, 0xA7C8), (0xA7D0, 0xA7D0, 1, 0xA7D1), (0xA7D6, 0xA7D8, 2, 0xA7D7),
    (0xA7F5, 0xA7F5, 1, 0xA7F6), (0xFF21, 0xFF3A, 1, 0xFF41), (0x10400, 0x10427, 1, 0x10428),
    (0x104B0, 0x104D3, 1, 0x104D8), (0x10570, 0x1057A, 1, 0x10597),
    (0x1057C, 0x1058A, 1, 0x105A3), (0x1058C, 0x10592, 1, 0x105B3),
    (0x10594, 0x10595, 1, 0x105BB), (0x10C80, 0x10CB2, 1, 0x10CC0),
    (0x118A0, 0x118BF, 1, 0x118C0), (0x16E40, 0x16E5F, 1, 0x16E60),
    (0x1E900, 0x1E921, 1, 0x1E922)]"

definition lower_ranges :: "case_range list" where
  "lower_ranges = (0x41, 0x5A, 1, 0x61) # non_ascii_ranges"

definition to_lower_full :: "codepoint \<Rightarrow> codepoint list" where
  "to_lower_full c = (if c = 0x130 then [0x69, 0x307] else [simple_lower lower_ranges c])"

text \<open>
  The final-sigma rule: the capital sigma is final when, skipping case-ignorable code
  points, a cased code point comes before it and none comes after it. The properties
  \<open>Cased\<close> and \<open>Case_Ignorable\<close> are read here only and are parameters.
\<close>

definition handle_capital_sigma ::
  "(codepoint \<Rightarrow> bool) \<Rightarrow> (codepoint \<Rightarrow> bool) \<Rightarrow> str \<Rightarrow> nat \<Rightarrow> codepoint" where
  "handle_capital_sigma cased case_ignorable s i =
     (let before = dropWhile case_ignorable (rev (take i s));
          after = dropWhile case_ignorable (drop (Suc i) s);
          final_sigma =
            ((case before of [] \<Rightarrow> False | c # _ \<Rightarrow> cased c) \<and>
             (case after of [] \<Rightarrow> True | c # _ \<Rightarrow> \<not> cased c))
      in if final_sigma then 0x3C2 else 0x3C3)"

definition lower_ucs4 ::
  "(codepoint \<Rightarrow> bool) \<Rightarrow> (codepoint \<Rightarrow> bool) \<Rightarrow> str \<Rightarrow> nat \<Rightarrow> codepoint list" where
  "lower_ucs4 cased case_ignorable s i =
     (let c = s ! i
      in if c = 0x3A3 then [handle_capital_sigma cased case_ignorable s i]
         else to_lower_full c)"

definition do_lower :: "(codepoint \<Rightarrow> bool) \<Rightarrow> (codepoint \<Rightarrow> bool) \<Rightarrow> str \<Rightarrow> str" where
  "do_lower cased case_ignorable s =
     concat (map (lower_ucs4 cased case_ignorable s) [0..<length s])"

text \<open>
  A code point that lowercasing leaves alone, and a check on a table: no row maps into
  a row's domain, nor onto \<open>U+0130\<close> or \<open>U+03A3\<close>.
\<close>

definition lower_fixed :: "codepoint \<Rightarrow> bool" where
  "lower_fixed c = (c \<noteq> 0x3A3 \<and> to_lower_full c = [c])"

definition disjoint_img :: "case_range \<Rightarrow> case_range \<Rightarrow> bool" where
  "disjoint_img r r' =
     (case r of (lo, hi, step, tlo) \<Rightarrow> case r' of (lo', hi', step', tlo') \<Rightarrow>
        tlo + (hi - lo) < lo' \<or> hi' < tlo \<or>
        ((step = 2 \<or> lo = hi) \<and> step' = 2 \<and> odd (tlo + lo')))"

definition avoids :: "case_range \<Rightarrow> codepoint \<Rightarrow> bool" where
  "avoids r x = (case r of (lo, hi, step, tlo) \<Rightarrow> x < tlo \<or> tlo + (hi - lo) < x)"

definition closed_table :: "case_range list \<Rightarrow> bool" where
  "closed_table rs =
     list_all (\<lambda>r. list_all (disjoint_img r) rs \<and> avoids r 0x130 \<and> avoids r 0x3A3) rs"

section \<open>Lowercasing\<close>

lemmas str_eval = str_lower_def pystr_def is_ascii_def ascii_lower_def

lemma str_lower_ascii: "list_all is_ascii s \<Longrightarrow> str_lower U s = map ascii_lower s"
  by (simp add: str_lower_def)

lemma casing_step:
  assumes "is_ascii c" "\<not> (65 \<le> c \<and> c \<le> 90)" "d = c \<or> d = ascii_upper c"
  shows "is_ascii d \<and> ascii_lower d = c"
  using assms by (auto simp: is_ascii_def ascii_lower_def ascii_upper_def split: if_splits)

lemma casing_ascii_lower:
  "list_all2 (\<lambda>c d. d = c \<or> d = ascii_upper c) key k \<Longrightarrow> lowercase_ascii key
     \<Longrightarrow> list_all is_ascii k \<and> map ascii_lower k = key"
proof (induction rule: list_all2_induct)
  case Nil
  then show ?case by simp
next
  case (Cons c key d k)
  from Cons.prems have c: "is_ascii c" "\<not> (65 \<le> c \<and> c \<le> 90)" and rest: "lowercase_ascii key"
    by (simp_all add: lowercase_ascii_def)
  from casing_step[OF c Cons.hyps(1)] Cons.IH[OF rest] show ?case by simp
qed

lemma casing_lower:
  assumes "casing_of key k" and "lowercase_ascii key"
  shows "str_lower U k = key"
  using casing_ascii_lower[OF assms(1)[unfolded casing_of_def] assms(2)]
  by (simp add: str_lower_def)

lemma lowercase_keys:
  "lowercase_ascii (pystr ''openai'')" "lowercase_ascii (pystr ''anthropic'')"
  "lowercase_ascii (pystr ''deepseek'')"
  by (simp_all add: lowercase_ascii_def pystr_def is_ascii_def)

lemma keys_distinct:
  "pystr ''openai'' \<noteq> pystr ''anthropic''" "pystr ''openai'' \<noteq> pystr ''deepseek''"
  "pystr ''anthropic'' \<noteq> pystr ''deepseek''"
  by (simp_all add: pystr_def)

section \<open>The tables of the module\<close>

lemma providers_module:
  "providers_of U (BASE_URLS module_globals) =
     [pystr ''openai'' \<mapsto> pystr ''OpenAI'', pystr ''anthropic'' \<mapsto> pystr ''Anthropic'',
      pystr ''deepseek'' \<mapsto> pystr ''DeepSeek'']"
  by (simp add: providers_of_def module_globals_def str_eval)

lemma dom_providers_module:
  "dom (providers_of U (BASE_URLS module_globals)) = supported_keys"
  by (simp add: providers_module supported_keys_def insert_commute)

lemma dom_shallow_module: "dom (SHALLOW_AGENT_OPTIONS module_globals) = supported_keys"
  by (simp add: module_globals_def supported_keys_def insert_commute)

lemma dom_deep_module: "dom (DEEP_AGENT_OPTIONS module_globals) = supported_keys"
  by (simp add: module_globals_def supported_keys_def insert_commute)

section \<open>Resolution of the supported keys\<close>

lemma llm_provider_lower:
  "str_lower U k = pystr ''openai'' \<Longrightarrow> llm_provider U k = Inr (pystr ''OpenAI'')"
  "str_lower U k = pystr ''anthropic'' \<Longrightarrow> llm_provider U k = Inr (pystr ''Anthropic'')"
  "str_lower U k = pystr ''deepseek'' \<Longrightarrow> llm_provider U k = Inr (pystr ''DeepSeek'')"
  using keys_distinct
  by (simp_all add: llm_provider_def select_llm_provider_def providers_module Let_def)

lemma shallow_agent_lower:
  "str_lower U k = pystr ''openai'' \<Longrightarrow> shallow_agent U k = Inr (pystr ''gpt-4o-mini'')"
  "str_lower U k = pystr ''anthropic'' \<Longrightarrow> shallow_agent U k = Inr (pystr ''claude-3-haiku'')"
  "str_lower U k = pystr ''deepseek'' \<Longrightarrow> shallow_agent U k = Inr (pystr ''deepseek-chat'')"
  using keys_distinct
  by (simp_all add: shallow_agent_def select_shallow_thinking_agent_def module_globals_def Let_def)

lemma deep_agent_lower:
  "str_lower U k = pystr ''openai'' \<Longrightarrow> deep_agent U k = Inr (pystr ''gpt-4o'')"
  "str_lower U k = pystr ''anthropic'' \<Longrightarrow> deep_agent U k = Inr (pystr ''claude-3-opus'')"
  "str_lower U k = pystr ''deepseek'' \<Longrightarrow> deep_agent U k = Inr (pystr ''deepseek-reasoner'')"
  using keys_distinct
  by (simp_all add: deep_agent_def select_deep_thinking_agent_def module_globals_def Let_def)

text \<open>
  C1. For each of the keys \<open>openai\<close>, \<open>anthropic\<close> and \<open>deepseek\<close>, written in any
  letter-casing, \<open>select_llm_provider\<close> returns the display name of the provider name
  list: \<open>OpenAI\<close>, \<open>Anthropic\<close>, \<open>DeepSeek\<close>. (By \<open>llm_provider_lower\<close> the same holds
  for every string that \<open>str.lower()\<close> sends to the key.)
\<close>

theorem select_llm_provider_any_casing:
  "(casing_of (pystr ''openai'') k \<longrightarrow> llm_provider U k = Inr (pystr ''OpenAI'')) \<and>
   (casing_of (pystr ''anthropic'') k \<longrightarrow> llm_provider U k = Inr (pystr ''Anthropic'')) \<and>
   (casing_of (pystr ''deepseek'') k \<longrightarrow> llm_provider U k = Inr (pystr ''DeepSeek''))"
  using casing_lower[OF _ lowercase_keys(1), of k U] casing_lower[OF _ lowercase_keys(2), of k U]
    casing_lower[OF _ lowercase_keys(3), of k U] llm_provider_lower[of U k]
  by blast

theorem select_llm_provider_any_casing_witness:
  "casing_of (pystr ''openai'') (pystr ''OpEnAI'') \<and>
   llm_provider (\<lambda>s. s) (pystr ''OpEnAI'') = Inr (pystr ''OpenAI'') \<and>
   casing_of (pystr ''anthropic'') (pystr ''ANTHROPIC'') \<and>
   llm_provider (\<lambda>s. s) (pystr ''ANTHROPIC'') = Inr (pystr ''Anthropic'') \<and>
   casing_of (pystr ''deepseek'') (pystr ''deepSeek'') \<and>
   llm_provider (\<lambda>s. s) (pystr ''deepSeek'') = Inr (pystr ''DeepSeek'')"
proof -
  have a: "casing_of (pystr ''openai'') (pystr ''OpEnAI'')"
    and b: "casing_of (pystr ''anthropic'') (pystr ''ANTHROPIC'')"
    and c: "casing_of (pystr ''deepseek'') (pystr ''deepSeek'')"
    by (simp_all add: casing_of_def pystr_def ascii_upper_def)
  show ?thesis
    using a b c select_llm_provider_any_casing[of "pystr ''OpEnAI''" "\<lambda>s. s"]
      select_llm_provider_any_casing[of "pystr ''ANTHROPIC''" "\<lambda>s. s"]
      select_llm_provider_any_casing[of "pystr ''deepSeek''" "\<lambda>s. s"]
    by blast
qed

text \<open>
  C2. For each supported key in any letter-casing, \<open>select_shallow_thinking_agent\<close> and
  \<open>select_deep_thinking_agent\<close> return the first entry of the provider's sequence:
  \<open>gpt-4o-mini\<close> and \<open>gpt-4o\<close> for openai, \<open>claude-3-haiku\<close> and \<open>claude-3-opus\<close> for
  anthropic, \<open>deepseek-chat\<close> and \<open>deepseek-reasoner\<close> for deepseek.
\<close>

theorem select_agents_any_casing:
  "(casing_of (pystr ''openai'') k \<longrightarrow>
      shallow_agent U k = Inr (pystr ''gpt-4o-mini'') \<and> deep_agent U k = Inr (pystr ''gpt-4o'')) \<and>
   (casing_of (pystr ''anthropic'') k \<longrightarrow>
      shallow_agent U k = Inr (pystr ''claude-3-haiku'') \<and>
      deep_agent U k = Inr (pystr ''claude-3-opus'')) \<and>
   (casing_of (pystr ''deepseek'') k \<longrightarrow>
      shallow_agent U k = Inr (pystr ''deepseek-chat'') \<and>
      deep_agent U k = Inr (pystr ''deepseek-reasoner''))"
  using casing_lower[OF _ lowercase_keys(1), of k U] casing_lower[OF _ lowercase_keys(2), of k U]
    casing_lower[OF _ lowercase_keys(3), of k U] shallow_agent_lower[of U k] deep_agent_lower[of U k]
  by blast

theorem select_agents_any_casing_witness:
  "casing_of (pystr ''openai'') (pystr ''OPENAI'') \<and>
   shallow_agent (\<lambda>s. s) (pystr ''OPENAI'') = Inr (pystr ''gpt-4o-mini'') \<and>
   deep_agent (\<lambda>s. s) (pystr ''OPENAI'') = Inr (pystr ''gpt-4o'') \<and>
   casing_of (pystr ''anthropic'') (pystr ''Anthropic'') \<and>
   shallow_agent (\<lambda>s. s) (pystr ''Anthropic'') = Inr (pystr ''claude-3-haiku'') \<and>
   deep_agent (\<lambda>s. s) (pystr ''Anthropic'') = Inr (pystr ''claude-3-opus'') \<and>
   casing_of (pystr ''deepseek'') (pystr ''dEEPsEEK'') \<and>
   shallow_agent (\<lambda>s. s) (pystr ''dEEPsEEK'') = Inr (pystr ''deepseek-chat'') \<and>
   deep_agent (\<lambda>s. s) (pystr ''dEEPsEEK'') = Inr (pystr ''deepseek-reasoner'')"
proof -
  have a: "casing_of (pystr ''openai'') (pystr ''OPENAI'')"
    and b: "casing_of (pystr ''anthropic'') (pystr ''Anthropic'')"
    and c: "casing_of (pystr ''deepseek'') (pystr ''dEEPsEEK'')"
    by (simp_all add: casing_of_def pystr_def ascii_upper_def)
  show ?thesis
    using a b c select_agents_any_casing[of "pystr ''OPENAI''" "\<lambda>s. s"]
      select_agents_any_casing[of "pystr ''Anthropic''" "\<lambda>s. s"]
      select_agents_any_casing[of "pystr ''dEEPsEEK''" "\<lambda>s. s"]
    by blast
qed

section \<open>Unknown keys\<close>

lemma llm_provider_unknown:
  "providers_of U (BASE_URLS g) (str_lower U k) = None \<Longrightarrow>
     select_llm_provider U k g = (Inl (KeyError (pystr ''Unknown LLM provider: '' @ k)), g)"
  by (simp add: select_llm_provider_def Let_def)

lemma shallow_agent_unknown:
  "SHALLOW_AGENT_OPTIONS g (str_lower U k) = None \<Longrightarrow>
     select_shallow_thinking_agent U k g =
       (Inl (KeyError (pystr ''Unknown provider for shallow agent: '' @ k)), g)"
  by (simp add: select_shallow_thinking_agent_def Let_def)

lemma deep_agent_unknown:
  "DEEP_AGENT_OPTIONS g (str_lower U k) = None \<Longrightarrow>
     select_deep_thinking_agent U k g =
       (Inl (KeyError (pystr ''Unknown provider for deep agent: '' @ k)), g)"
  by (simp add: select_deep_thinking_agent_def Let_def)

lemma str_lower_Mistral: "str_lower U (pystr ''Mistral'') = pystr ''mistral''"
  by (simp add: str_eval)

lemma mistral_unsupported: "pystr ''mistral'' \<notin> supported_keys"
  by (simp add: supported_keys_def pystr_def)

text \<open>
  C3. For every input whose lowercased form is not a key of the table searched (the
  lowercase view of the provider name list, the shallow-agent table, the deep-agent
  table; each has the key set \<open>supported_keys\<close>), the operation raises its \<open>KeyError\<close>
  and returns no value, and the message ends in the input as given, not in its
  lowercased form.
\<close>

theorem unknown_key_carries_input:
  "(str_lower U k \<notin> dom (providers_of U (BASE_URLS module_globals)) \<longrightarrow>
      llm_provider U k = Inl (KeyError (pystr ''Unknown LLM provider: '' @ k))) \<and>
   (str_lower U k \<notin> dom (SHALLOW_AGENT_OPTIONS module_globals) \<longrightarrow>
      shallow_agent U k = Inl (KeyError (pystr ''Unknown provider for shallow agent: '' @ k))) \<and>
   (str_lower U k \<notin> dom (DEEP_AGENT_OPTIONS module_globals) \<longrightarrow>
      deep_agent U k = Inl (KeyError (pystr ''Unknown provider for deep agent: '' @ k)))"
  by (simp add: domIff llm_provider_def shallow_agent_def deep_agent_def
      llm_provider_unknown shallow_agent_unknown deep_agent_unknown)

theorem unknown_key_carries_input_witness:
  "str_lower (\<lambda>s. s) (pystr ''Mistral'') = pystr ''mistral'' \<and>
   pystr ''mistral'' \<notin> dom (providers_of (\<lambda>s. s) (BASE_URLS module_globals)) \<and>
   pystr ''mistral'' \<notin> dom (SHALLOW_AGENT_OPTIONS module_globals) \<and>
   pystr ''mistral'' \<notin> dom (DEEP_AGENT_OPTIONS module_globals) \<and>
   llm_provider (\<lambda>s. s) (pystr ''Mistral'') = Inl (KeyError (pystr ''Unknown LLM provider: Mistral'')) \<and>
   shallow_agent (\<lambda>s. s) (pystr ''Mistral'') =
     Inl (KeyError (pystr ''Unknown provider for shallow agent: Mistral'')) \<and>
   deep_agent (\<lambda>s. s) (pystr ''Mistral'') =
     Inl (KeyError (pystr ''Unknown provider for deep agent: Mistral'')) \<and>
   pystr ''Unknown LLM provider: Mistral'' \<noteq> pystr ''Unknown LLM provider: mistral''"
  using unknown_key_carries_input[of "\<lambda>s. s" "pystr ''Mistral''"] mistral_unsupported
  by (simp add: str_lower_Mistral dom_providers_module dom_shallow_module dom_deep_module)
     (simp add: pystr_def)

section \<open>Outcomes of a call\<close>

lemma str_lower_idem_ascii:
  assumes "list_all is_ascii k"
  shows "str_lower U (str_lower U k) = str_lower U k"
proof -
  have "list_all is_ascii (map ascii_lower k)"
    using assms by (induction k) (auto simp: is_ascii_def ascii_lower_def)
  moreover have "map ascii_lower (map ascii_lower k) = map ascii_lower k"
    by (induction k) (auto simp: ascii_lower_def)
  ultimately show ?thesis using assms by (simp add: str_lower_def)
qed

lemma llm_provider_cases:
  "(\<exists>name. providers_of U (BASE_URLS g) (str_lower U k) = Some name \<and>
       select_llm_provider U k g = (Inr name, g)) \<or>
   (providers_of U (BASE_URLS g) (str_lower U k) = None \<and>
       select_llm_provider U k g = (Inl (KeyError (pystr ''Unknown LLM provider: '' @ k)), g))"
  by (cases "providers_of U (BASE_URLS g) (str_lower U k)")
     (simp_all add: select_llm_provider_def Let_def)

lemma shallow_module_lookup:
  "SHALLOW_AGENT_OPTIONS module_globals key = Some models \<Longrightarrow>
     key \<in> supported_keys \<and> (\<exists>m. models = [m]) "
  by (auto simp: module_globals_def supported_keys_def split: if_splits)

lemma deep_module_lookup:
  "DEEP_AGENT_OPTIONS module_globals key = Some models \<Longrightarrow>
     key \<in> supported_keys \<and> (\<exists>m. models = [m]) "
  by (auto simp: module_globals_def supported_keys_def split: if_splits)

lemma shallow_agent_cases:
  "(\<exists>m. SHALLOW_AGENT_OPTIONS module_globals (str_lower U k) = Some [m] \<and>
       shallow_agent U k = Inr m) \<or>
   (SHALLOW_AGENT_OPTIONS module_globals (str_lower U k) = None \<and>
       shallow_agent U k = Inl (KeyError (pystr ''Unknown provider for shallow agent: '' @ k)))"
proof (cases "SHALLOW_AGENT_OPTIONS module_globals (str_lower U k)")
  case None
  then show ?thesis by (simp add: shallow_agent_def shallow_agent_unknown)
next
  case (Some models)
  from shallow_module_lookup[OF Some] obtain m where "models = [m]" by blast
  with Some show ?thesis
    by (simp add: shallow_agent_def select_shallow_thinking_agent_def Let_def)
qed

lemma deep_agent_cases:
  "(\<exists>m. DEEP_AGENT_OPTIONS module_globals (str_lower U k) = Some [m] \<and>
       deep_agent U k = Inr m) \<or>
   (DEEP_AGENT_OPTIONS module_globals (str_lower U k) = None \<and>
       deep_agent U k = Inl (KeyError (pystr ''Unknown provider for deep agent: '' @ k)))"
proof (cases "DEEP_AGENT_OPTIONS module_globals (str_lower U k)")
  case None
  then show ?thesis by (simp add: deep_agent_def deep_agent_unknown)
next
  case (Some models)
  from deep_module_lookup[OF Some] obtain m where "models = [m]" by blast
  with Some show ?thesis
    by (simp add: deep_agent_def select_deep_thinking_agent_def Let_def)
qed

text \<open>
  C5. Each of the three operations is total on strings: for every input it returns a
  string or raises its \<open>KeyError\<close> about that input. No call ends in another failure;
  in particular the \<open>IndexError\<close> of \<open>[0]\<close> on an empty sequence is never raised.
\<close>

theorem selectors_total:
  "((\<exists>v. llm_provider U k = Inr v) \<or>
      llm_provider U k = Inl (KeyError (pystr ''Unknown LLM provider: '' @ k))) \<and>
   ((\<exists>v. shallow_agent U k = Inr v) \<or>
      shallow_agent U k = Inl (KeyError (pystr ''Unknown provider for shallow agent: '' @ k))) \<and>
   ((\<exists>v. deep_agent U k = Inr v) \<or>
      deep_agent U k = Inl (KeyError (pystr ''Unknown provider for deep agent: '' @ k))) \<and>
   llm_provider U k \<noteq> Inl IndexError \<and> shallow_agent U k \<noteq> Inl IndexError \<and>
   deep_agent U k \<noteq> Inl IndexError"
proof -
  have a: "(\<exists>v. llm_provider U k = Inr v) \<or>
      llm_provider U k = Inl (KeyError (pystr ''Unknown LLM provider: '' @ k))"
    using llm_provider_cases[of U module_globals k] by (auto simp: llm_provider_def)
  have b: "(\<exists>v. shallow_agent U k = Inr v) \<or>
      shallow_agent U k = Inl (KeyError (pystr ''Unknown provider for shallow agent: '' @ k))"
    using shallow_agent_cases[of U k] by blast
  have c: "(\<exists>v. deep_agent U k = Inr v) \<or>
      deep_agent U k = Inl (KeyError (pystr ''Unknown provider for deep agent: '' @ k))"
    using deep_agent_cases[of U k] by blast
  from a have a': "llm_provider U k \<noteq> Inl IndexError" by auto
  from b have b': "shallow_agent U k \<noteq> Inl IndexError" by auto
  from c have c': "deep_agent U k \<noteq> Inl IndexError" by auto
  from a b c a' b' c' show ?thesis by blast
qed

text \<open>
  C6. The names of the provider name list are pairwise distinct, and the key set of the
  shallow-agent table and that of the deep-agent table each equal the set of the
  lowercased entries of the provider name list.
\<close>

theorem tables_invariant:
  "distinct (BASE_URLS module_globals) \<and>
   dom (SHALLOW_AGENT_OPTIONS module_globals) = str_lower U ` set (BASE_URLS module_globals) \<and>
   dom (DEEP_AGENT_OPTIONS module_globals) = str_lower U ` set (BASE_URLS module_globals)"
proof -
  have d: "distinct (BASE_URLS module_globals)"
    by (simp add: module_globals_def pystr_def)
  have l: "str_lower U ` set (BASE_URLS module_globals) = supported_keys"
    by (simp add: module_globals_def supported_keys_def str_eval)
  from d l show ?thesis by (simp add: dom_shallow_module dom_deep_module)
qed

text \<open>
  C7. In any state of the tables, each operation leaves the state as it found it, and a
  second call with the same input, made in the state the first call left, gives the
  same outcome and the same state.
\<close>

theorem selectors_repeatable:
  "snd (select_llm_provider U k g) = g \<and>
   select_llm_provider U k (snd (select_llm_provider U k g)) = select_llm_provider U k g \<and>
   snd (select_shallow_thinking_agent U k g) = g \<and>
   select_shallow_thinking_agent U k (snd (select_shallow_thinking_agent U k g)) =
     select_shallow_thinking_agent U k g \<and>
   snd (select_deep_thinking_agent U k g) = g \<and>
   select_deep_thinking_agent U k (snd (select_deep_thinking_agent U k g)) =
     select_deep_thinking_agent U k g"
proof -
  have a: "snd (select_llm_provider U k g) = g"
    by (simp add: select_llm_provider_def Let_def split: option.split)
  have b: "snd (select_shallow_thinking_agent U k g) = g"
    by (simp add: select_shallow_thinking_agent_def Let_def split: option.split list.split)
  have c: "snd (select_deep_thinking_agent U k g) = g"
    by (simp add: select_deep_thinking_agent_def Let_def split: option.split list.split)
  from a b c show ?thesis by simp
qed

text \<open>
  C8. Every model sequence stored in the shallow-agent table and in the deep-agent table
  is non-empty, with exactly one element; so for a key that is present the selector
  takes the first element and returns it.
\<close>

theorem model_sequences_nonempty:
  "(SHALLOW_AGENT_OPTIONS module_globals key = Some models \<longrightarrow>
      models \<noteq> [] \<and> length models = 1) \<and>
   (DEEP_AGENT_OPTIONS module_globals key = Some models \<longrightarrow>
      models \<noteq> [] \<and> length models = 1) \<and>
   (SHALLOW_AGENT_OPTIONS module_globals (str_lower U k) = Some models \<longrightarrow>
      (\<exists>m. models = [m] \<and> shallow_agent U k = Inr m)) \<and>
   (DEEP_AGENT_OPTIONS module_globals (str_lower U k) = Some models \<longrightarrow>
      (\<exists>m. models = [m] \<and> deep_agent U k = Inr m))"
  using shallow_module_lookup[of key models] deep_module_lookup[of key models]
    shallow_agent_cases[of U k] deep_agent_cases[of U k]
  by auto

theorem model_sequences_nonempty_witness:
  "SHALLOW_AGENT_OPTIONS module_globals (pystr ''anthropic'') = Some [pystr ''claude-3-haiku''] \<and>
   DEEP_AGENT_OPTIONS module_globals (pystr ''anthropic'') = Some [pystr ''claude-3-opus''] \<and>
   str_lower (\<lambda>s. s) (pystr ''Anthropic'') = pystr ''anthropic'' \<and>
   [pystr ''claude-3-haiku''] \<noteq> [] \<and> length [pystr ''claude-3-haiku''] = 1 \<and>
   shallow_agent (\<lambda>s. s) (pystr ''Anthropic'') = Inr (pystr ''claude-3-haiku'') \<and>
   deep_agent (\<lambda>s. s) (pystr ''Anthropic'') = Inr (pystr ''claude-3-opus'')"
proof -
  have s: "SHALLOW_AGENT_OPTIONS module_globals (pystr ''anthropic'') = Some [pystr ''claude-3-haiku'']"
    and d: "DEEP_AGENT_OPTIONS module_globals (pystr ''anthropic'') = Some [pystr ''claude-3-opus'']"
    using keys_distinct by (simp_all add: module_globals_def)
  have l: "str_lower (\<lambda>s. s) (pystr ''Anthropic'') = pystr ''anthropic''"
    by (simp add: str_eval)
  show ?thesis
    using s d l
      model_sequences_nonempty[of "pystr ''anthropic''" "[pystr ''claude-3-haiku'']" "\<lambda>s. s" "pystr ''Anthropic''"]
      model_sequences_nonempty[of "pystr ''anthropic''" "[pystr ''claude-3-opus'']" "\<lambda>s. s" "pystr ''Anthropic''"]
    by simp
qed

section \<open>Round trip through the lowercase view\<close>

lemma providers_fold_inv:
  "foldl (\<lambda>d name. d(str_lower U name \<mapsto> name)) d names key = Some name \<Longrightarrow>
     d key = Some name \<or> (name \<in> set names \<and> str_lower U name = key)"
proof (induction names arbitrary: d)
  case Nil
  then show ?case by simp
next
  case (Cons x xs)
  from Cons.prems
  have "foldl (\<lambda>d name. d(str_lower U name \<mapsto> name)) (d(str_lower U x \<mapsto> x)) xs key = Some name"
    by (simp only: foldl_Cons)
  from Cons.IH[OF this]
  have "(d(str_lower U x \<mapsto> x)) key = Some name \<or> (name \<in> set xs \<and> str_lower U name = key)" .
  then show ?case by (auto split: if_splits)
qed

lemma providers_of_inv:
  assumes "providers_of U names key = Some name"
  shows "name \<in> set names \<and> str_lower U name = key"
  using providers_fold_inv[OF assms[unfolded providers_of_def]] by simp

text \<open>
  C9. Whenever \<open>select_llm_provider\<close> returns a name for an input \<open>k\<close>, the lowercased
  form of that name equals the lowercased form of \<open>k\<close>, and the name is an entry of the
  provider name list. This holds in every state of the tables, the module's among them.
\<close>

theorem select_llm_provider_roundtrip:
  "select_llm_provider U k g = (Inr name, g') \<Longrightarrow>
     str_lower U name = str_lower U k \<and> name \<in> set (BASE_URLS g)"
  using llm_provider_cases[of U g k] providers_of_inv[of U "BASE_URLS g" "str_lower U k" name]
  by auto

theorem select_llm_provider_roundtrip_witness:
  "select_llm_provider (\<lambda>s. s) (pystr ''dEEPSEEk'') module_globals =
     (Inr (pystr ''DeepSeek''), module_globals) \<and>
   str_lower (\<lambda>s. s) (pystr ''DeepSeek'') = pystr ''deepseek'' \<and>
   str_lower (\<lambda>s. s) (pystr ''dEEPSEEk'') = pystr ''deepseek'' \<and>
   pystr ''DeepSeek'' \<in> set (BASE_URLS module_globals)"
proof -
  have l: "str_lower (\<lambda>s. s) (pystr ''dEEPSEEk'') = pystr ''deepseek''"
    by (simp add: str_eval)
  have c: "select_llm_provider (\<lambda>s. s) (pystr ''dEEPSEEk'') module_globals =
     (Inr (pystr ''DeepSeek''), module_globals)"
    using keys_distinct by (simp add: select_llm_provider_def providers_module Let_def l)
  from select_llm_provider_roundtrip[OF c] c l show ?thesis by simp
qed

section \<open>The case tables\<close>

lemma closed_lower_ranges: "closed_table lower_ranges"
  unfolding closed_table_def lower_ranges_def non_ascii_ranges_def
  by (simp add: disjoint_img_def avoids_def)


lemma parity_aux:
  fixes n tlo lo' :: nat
  assumes "even n" and "lo' \<le> tlo + n" and "even (tlo + n - lo')" and "odd (tlo + lo')"
  shows False
proof -
  from assms(2) obtain m where m: "tlo + n = lo' + m"
    using le_iff_add by blast
  with assms(3) have "even m" by simp
  with m assms(1) have "even tlo = even lo'"
    by (metis even_add)
  with assms(4) show False by simp
qed

lemma disjoint_img_sound:
  assumes "in_range r c" and "disjoint_img r r'"
  shows "\<not> in_range r' (range_image r c)"
proof (cases r)
  case r: (fields lo hi step tlo)
  show ?thesis
  proof (cases r')
    case r': (fields lo' hi' step' tlo')
    from assms(1) have c: "lo \<le> c" "c \<le> hi" "(c - lo) mod step = 0"
      by (simp_all add: in_range_def r)
    from assms(2) consider "tlo + (hi - lo) < lo'" | "hi' < tlo"
      | "step = 2 \<or> lo = hi" "step' = 2" "odd (tlo + lo')"
      by (auto simp: disjoint_img_def r r')
    then show ?thesis
    proof cases
      case 1
      with c show ?thesis by (auto simp: in_range_def range_image_def r r')
    next
      case 2
      with c show ?thesis by (auto simp: in_range_def range_image_def r r')
    next
      case 3
      from 3(1) have e: "even (c - lo)"
      proof
        assume "step = 2"
        with c(3) show ?thesis by (simp add: even_iff_mod_2_eq_zero)
      next
        assume "lo = hi"
        with c(1,2) show ?thesis by simp
      qed
      show ?thesis
      proof
        assume "in_range r' (range_image r c)"
        then have a: "lo' \<le> tlo + (c - lo)" and b: "even (tlo + (c - lo) - lo')"
          by (simp_all only: in_range_def range_image_def r r' 3(2) prod.case
                even_iff_mod_2_eq_zero)
        from parity_aux[OF e a b 3(3)] show False .
      qed
    qed
  qed
qed

lemma avoids_sound:
  assumes "in_range r c" and "avoids r x"
  shows "range_image r c \<noteq> x"
  using assms by (cases r) (auto simp: in_range_def avoids_def range_image_def)

lemma simple_lower_cases:
  "(simple_lower rs c = c \<and> (\<forall>r\<in>set rs. \<not> in_range r c)) \<or>
   (\<exists>r\<in>set rs. in_range r c \<and> simple_lower rs c = range_image r c)"
  by (induction rs) auto

lemma simple_lower_outside:
  "\<forall>r\<in>set rs. \<not> in_range r d \<Longrightarrow> simple_lower rs d = d"
  by (induction rs) auto

lemma closed_table_image:
  assumes "closed_table rs"
  shows "simple_lower rs (simple_lower rs c) = simple_lower rs c \<and>
         (simple_lower rs c \<noteq> c \<longrightarrow> simple_lower rs c \<noteq> 0x130 \<and> simple_lower rs c \<noteq> 0x3A3)"
proof -
  from simple_lower_cases[of rs c]
  consider "simple_lower rs c = c"
    | r where "r \<in> set rs" "in_range r c" "simple_lower rs c = range_image r c"
    by blast
  then show ?thesis
  proof cases
    case 1
    then show ?thesis by simp
  next
    case 2
    from assms 2(1) have d: "\<forall>r'\<in>set rs. disjoint_img r r'"
      and a: "avoids r 0x130" "avoids r 0x3A3"
      by (auto simp: closed_table_def list_all_iff)
    from d disjoint_img_sound[OF 2(2)] have "\<forall>r'\<in>set rs. \<not> in_range r' (range_image r c)"
      by blast
    from simple_lower_outside[OF this] avoids_sound[OF 2(2) a(1)] avoids_sound[OF 2(2) a(2)] 2(3)
    show ?thesis by simp
  qed
qed

lemma simple_lower_below:
  "list_all (\<lambda>r. c < fst r) rs \<Longrightarrow> simple_lower rs c = c"
  by (induction rs) (auto simp: in_range_def)

lemma non_ascii_ranges_above: "list_all (\<lambda>r. 128 \<le> fst r) non_ascii_ranges"
  by (simp add: non_ascii_ranges_def)

lemma simple_lower_ascii:
  assumes "c < 128" and "\<not> (65 \<le> c \<and> c \<le> 90)"
  shows "simple_lower lower_ranges c = c"
proof -
  from non_ascii_ranges_above assms(1) have "list_all (\<lambda>r. c < fst r) non_ascii_ranges"
    by (auto simp: list_all_iff)
  from simple_lower_below[OF this] assms(2) show ?thesis
    by (auto simp: lower_ranges_def in_range_def)
qed

lemma simple_lower_capital:
  "65 \<le> c \<Longrightarrow> c \<le> 90 \<Longrightarrow> simple_lower lower_ranges c = c + 32"
  by (simp add: lower_ranges_def in_range_def range_image_def)

lemma simple_lower_sigma: "simple_lower lower_ranges 0x3A3 = 0x3C3"
  by (simp add: lower_ranges_def non_ascii_ranges_def in_range_def range_image_def)

lemma lower_fixed_special:
  "lower_fixed 0x69" "lower_fixed 0x307" "lower_fixed 0x3C2" "lower_fixed 0x3C3"
  by (simp_all add: lower_fixed_def to_lower_full_def lower_ranges_def non_ascii_ranges_def
      in_range_def range_image_def)

lemma to_lower_full_fixed:
  assumes "c \<noteq> 0x3A3" and "d \<in> set (to_lower_full c)"
  shows "lower_fixed d"
proof (cases "c = 0x130")
  case True
  with assms(2) lower_fixed_special(1,2) show ?thesis
    by (auto simp: to_lower_full_def)
next
  case False
  with assms(2) have d: "d = simple_lower lower_ranges c"
    by (simp add: to_lower_full_def)
  note img = closed_table_image[OF closed_lower_ranges, of c]
  show ?thesis
  proof (cases "d = c")
    case True
    with d False assms(1) show ?thesis
      by (simp add: lower_fixed_def to_lower_full_def)
  next
    case False
    with d img show ?thesis
      by (simp add: lower_fixed_def to_lower_full_def)
  qed
qed

lemma lower_ucs4_fixed:
  assumes "d \<in> set (lower_ucs4 cased ign s i)"
  shows "lower_fixed d"
proof (cases "s ! i = 0x3A3")
  case True
  with assms lower_fixed_special(3,4) show ?thesis
    by (auto simp: lower_ucs4_def handle_capital_sigma_def Let_def split: if_splits)
next
  case False
  with assms have "d \<in> set (to_lower_full (s ! i))"
    by (simp add: lower_ucs4_def Let_def)
  from to_lower_full_fixed[OF False this] show ?thesis .
qed

lemma do_lower_fixed:
  assumes "d \<in> set (do_lower cased ign s)"
  shows "lower_fixed d"
  using assms lower_ucs4_fixed by (auto simp: do_lower_def)

lemma do_lower_of_fixed:
  assumes "\<forall>d\<in>set t. lower_fixed d"
  shows "do_lower cased ign t = t"
proof -
  have "map (lower_ucs4 cased ign t) [0..<length t] = map (\<lambda>i. [t ! i]) [0..<length t]"
  proof (rule map_cong[OF refl])
    fix i assume "i \<in> set [0..<length t]"
    then have "t ! i \<in> set t" by simp
    with assms have "lower_fixed (t ! i)" by blast
    then show "lower_ucs4 cased ign t i = [t ! i]"
      by (simp add: lower_ucs4_def lower_fixed_def Let_def)
  qed
  then have "do_lower cased ign t = concat (map (\<lambda>i. [t ! i]) [0..<length t])"
    by (simp only: do_lower_def)
  also have "\<dots> = map (\<lambda>i. t ! i) [0..<length t]"
    by (rule concat_map_singleton)
  also have "\<dots> = t" by (rule map_nth)
  finally show ?thesis .
qed

lemma ascii_lower_of_fixed:
  assumes "lower_fixed c"
  shows "ascii_lower c = c"
proof (cases "65 \<le> c \<and> c \<le> 90")
  case True
  with simple_lower_capital[of c] have "simple_lower lower_ranges c = c + 32" by simp
  moreover from True have "c \<noteq> 0x130" by simp
  ultimately have "to_lower_full c \<noteq> [c]" by (simp add: to_lower_full_def)
  with assms show ?thesis by (simp add: lower_fixed_def)
next
  case False
  then show ?thesis by (simp add: ascii_lower_def)
qed

lemma str_lower_of_fixed:
  assumes "\<forall>d\<in>set t. lower_fixed d"
  shows "str_lower (do_lower cased ign) t = t"
proof -
  from assms have "map ascii_lower t = t"
    by (simp add: ascii_lower_of_fixed map_idI)
  with do_lower_of_fixed[OF assms] show ?thesis by (simp add: str_lower_def)
qed

lemma str_lower_fixed:
  assumes "d \<in> set (str_lower (do_lower cased ign) k)"
  shows "lower_fixed d"
proof (cases "list_all is_ascii k")
  case True
  with assms obtain c where c: "c \<in> set k" "d = ascii_lower c" "is_ascii c"
    by (auto simp: str_lower_def list_all_iff)
  show ?thesis
  proof (cases "65 \<le> c \<and> c \<le> 90")
    case True
    then have "c \<noteq> 0x3A3" "c \<noteq> 0x130" by simp_all
    moreover from True c(2) have "d = simple_lower lower_ranges c"
      by (simp add: simple_lower_capital ascii_lower_def)
    ultimately show ?thesis
      using to_lower_full_fixed[of c d] by (simp add: to_lower_full_def)
  next
    case False
    with c have dc: "d = c" and lt: "c < 128" by (simp_all add: ascii_lower_def is_ascii_def)
    from lt have "c \<noteq> 0x3A3" "c \<noteq> 0x130" by simp_all
    moreover have "simple_lower lower_ranges c = c"
      using False lt by (rule simple_lower_ascii[rotated])
    ultimately show ?thesis by (simp add: dc lower_fixed_def to_lower_full_def)
  qed
next
  case False
  with assms do_lower_fixed show ?thesis by (simp add: str_lower_def)
qed

lemma str_lower_idem:
  "str_lower (do_lower cased ign) (str_lower (do_lower cased ign) k) =
     str_lower (do_lower cased ign) k"
  by (rule str_lower_of_fixed) (blast intro: str_lower_fixed)

section \<open>Case-insensitivity\<close>

lemma llm_provider_same_key:
  assumes "str_lower U a = str_lower U b"
  shows "(\<exists>v. llm_provider U a = Inr v \<and> llm_provider U b = Inr v) \<or>
         (llm_provider U a = Inl (KeyError (pystr ''Unknown LLM provider: '' @ a)) \<and>
          llm_provider U b = Inl (KeyError (pystr ''Unknown LLM provider: '' @ b)))"
  using llm_provider_cases[of U module_globals a] llm_provider_cases[of U module_globals b] assms
  by (auto simp: llm_provider_def)

lemma shallow_agent_same_key:
  assumes "str_lower U a = str_lower U b"
  shows "(\<exists>v. shallow_agent U a = Inr v \<and> shallow_agent U b = Inr v) \<or>
         (shallow_agent U a = Inl (KeyError (pystr ''Unknown provider for shallow agent: '' @ a)) \<and>
          shallow_agent U b = Inl (KeyError (pystr ''Unknown provider for shallow agent: '' @ b)))"
  using shallow_agent_cases[of U a] shallow_agent_cases[of U b] assms by auto

lemma deep_agent_same_key:
  assumes "str_lower U a = str_lower U b"
  shows "(\<exists>v. deep_agent U a = Inr v \<and> deep_agent U b = Inr v) \<or>
         (deep_agent U a = Inl (KeyError (pystr ''Unknown provider for deep agent: '' @ a)) \<and>
          deep_agent U b = Inl (KeyError (pystr ''Unknown provider for deep agent: '' @ b)))"
  using deep_agent_cases[of U a] deep_agent_cases[of U b] assms by auto

lemma supported_key_fixed:
  assumes "key \<in> supported_keys"
  shows "str_lower U key = key"
  using assms by (auto simp: supported_keys_def str_eval)

lemma supported_key_lowercase:
  assumes "key \<in> supported_keys"
  shows "lowercase_ascii key"
  using assms lowercase_keys by (auto simp: supported_keys_def)

lemma supported_key_succeeds:
  assumes "str_lower U k \<in> supported_keys"
  shows "\<exists>a b c. llm_provider U k = Inr a \<and> shallow_agent U k = Inr b \<and> deep_agent U k = Inr c"
  using assms llm_provider_lower[of U k] shallow_agent_lower[of U k] deep_agent_lower[of U k]
  by (auto simp: supported_keys_def)

text \<open>The Kelvin sign \<open>U+212A\<close> lowercases to the ASCII letter \<open>k\<close>.\<close>

lemma str_lower_kelvin:
  "str_lower (do_lower (\<lambda>c. False) (\<lambda>c. False)) (pystr ''DeepSee'' @ [0x212A]) = pystr ''deepseek''"
  by (simp add: str_eval do_lower_def lower_ucs4_def to_lower_full_def lower_ranges_def
      non_ascii_ranges_def in_range_def range_image_def upt_conv_Cons)

text \<open>
  C4. Each operation treats an input \<open>k\<close> and its lowercased form alike, for every
  string \<open>k\<close>: both calls return the same value, or both raise the operation's
  \<open>KeyError\<close> (each message ends in the string that call was given). Lowercasing is
  that of the interpreter, \<open>do_lower\<close> on strings that are not ASCII, whatever the
  \<open>Cased\<close> and \<open>Case_Ignorable\<close> properties are. In particular every letter-casing of a
  supported key resolves exactly as the key does, under any lowercasing of non-ASCII
  strings.
\<close>

theorem case_insensitive:
  "((\<exists>v. llm_provider (do_lower cased ign) k = Inr v \<and>
         llm_provider (do_lower cased ign) (str_lower (do_lower cased ign) k) = Inr v) \<or>
    (llm_provider (do_lower cased ign) k = Inl (KeyError (pystr ''Unknown LLM provider: '' @ k)) \<and>
     llm_provider (do_lower cased ign) (str_lower (do_lower cased ign) k) =
       Inl (KeyError (pystr ''Unknown LLM provider: '' @ str_lower (do_lower cased ign) k)))) \<and>
   ((\<exists>v. shallow_agent (do_lower cased ign) k = Inr v \<and>
         shallow_agent (do_lower cased ign) (str_lower (do_lower cased ign) k) = Inr v) \<or>
    (shallow_agent (do_lower cased ign) k =
       Inl (KeyError (pystr ''Unknown provider for shallow agent: '' @ k)) \<and>
     shallow_agent (do_lower cased ign) (str_lower (do_lower cased ign) k) =
       Inl (KeyError (pystr ''Unknown provider for shallow agent: '' @
                      str_lower (do_lower cased ign) k)))) \<and>
   ((\<exists>v. deep_agent (do_lower cased ign) k = Inr v \<and>
         deep_agent (do_lower cased ign) (str_lower (do_lower cased ign) k) = Inr v) \<or>
    (deep_agent (do_lower cased ign) k =
       Inl (KeyError (pystr ''Unknown provider for deep agent: '' @ k)) \<and>
     deep_agent (do_lower cased ign) (str_lower (do_lower cased ign) k) =
       Inl (KeyError (pystr ''Unknown provider for deep agent: '' @
                      str_lower (do_lower cased ign) k)))) \<and>
   (key \<in> supported_keys \<and> casing_of key k \<longrightarrow>
      llm_provider U k = llm_provider U key \<and> shallow_agent U k = shallow_agent U key \<and>
      deep_agent U k = deep_agent U key)"
proof (intro conjI impI)
  have e: "str_lower (do_lower cased ign) k =
      str_lower (do_lower cased ign) (str_lower (do_lower cased ign) k)"
    by (simp only: str_lower_idem)
  show "(\<exists>v. llm_provider (do_lower cased ign) k = Inr v \<and>
         llm_provider (do_lower cased ign) (str_lower (do_lower cased ign) k) = Inr v) \<or>
    (llm_provider (do_lower cased ign) k = Inl (KeyError (pystr ''Unknown LLM provider: '' @ k)) \<and>
     llm_provider (do_lower cased ign) (str_lower (do_lower cased ign) k) =
       Inl (KeyError (pystr ''Unknown LLM provider: '' @ str_lower (do_lower cased ign) k)))"
    by (rule llm_provider_same_key[OF e])
  show "(\<exists>v. shallow_agent (do_lower cased ign) k = Inr v \<and>
         shallow_agent (do_lower cased ign) (str_lower (do_lower cased ign) k) = Inr v) \<or>
    (shallow_agent (do_lower cased ign) k =
       Inl (KeyError (pystr ''Unknown provider for shallow agent: '' @ k)) \<and>
     shallow_agent (do_lower cased ign) (str_lower (do_lower cased ign) k) =
       Inl (KeyError (pystr ''Unknown provider for shallow agent: '' @
                      str_lower (do_lower cased ign) k)))"
    by (rule shallow_agent_same_key[OF e])
  show "(\<exists>v. deep_agent (do_lower cased ign) k = Inr v \<and>
         deep_agent (do_lower cased ign) (str_lower (do_lower cased ign) k) = Inr v) \<or>
    (deep_agent (do_lower cased ign) k =
       Inl (KeyError (pystr ''Unknown provider for deep agent: '' @ k)) \<and>
     deep_agent (do_lower cased ign) (str_lower (do_lower cased ign) k) =
       Inl (KeyError (pystr ''Unknown provider for deep agent: '' @
                      str_lower (do_lower cased ign) k)))"
    by (rule deep_agent_same_key[OF e])
next
  assume a: "key \<in> supported_keys \<and> casing_of key k"
  then have kk: "str_lower U k = key"
    using casing_lower supported_key_lowercase by blast
  from a have e: "str_lower U k = str_lower U key"
    by (simp add: kk supported_key_fixed)
  from a kk have s: "str_lower U k \<in> supported_keys" by simp
  show "llm_provider U k = llm_provider U key"
    using llm_provider_same_key[OF e] supported_key_succeeds[OF s] by auto
  show "shallow_agent U k = shallow_agent U key"
    using shallow_agent_same_key[OF e] supported_key_succeeds[OF s] by auto
  show "deep_agent U k = deep_agent U key"
    using deep_agent_same_key[OF e] supported_key_succeeds[OF s] by auto
qed

theorem case_insensitive_witness:
  "llm_provider (do_lower (\<lambda>c. False) (\<lambda>c. False)) (pystr ''DeepSee'' @ [0x212A]) =
     Inr (pystr ''DeepSeek'') \<and>
   llm_provider (do_lower (\<lambda>c. False) (\<lambda>c. False))
     (str_lower (do_lower (\<lambda>c. False) (\<lambda>c. False)) (pystr ''DeepSee'' @ [0x212A])) =
     Inr (pystr ''DeepSeek'') \<and>
   llm_provider (do_lower (\<lambda>c. False) (\<lambda>c. False)) (pystr ''Mistral'') =
     Inl (KeyError (pystr ''Unknown LLM provider: '' @ pystr ''Mistral'')) \<and>
   llm_provider (do_lower (\<lambda>c. False) (\<lambda>c. False))
     (str_lower (do_lower (\<lambda>c. False) (\<lambda>c. False)) (pystr ''Mistral'')) =
     Inl (KeyError (pystr ''Unknown LLM provider: '' @
                    str_lower (do_lower (\<lambda>c. False) (\<lambda>c. False)) (pystr ''Mistral''))) \<and>
   pystr ''deepseek'' \<in> supported_keys \<and>
   casing_of (pystr ''deepseek'') (pystr ''DeepSeek'') \<and>
   llm_provider (\<lambda>s. s) (pystr ''DeepSeek'') = llm_provider (\<lambda>s. s) (pystr ''deepseek'') \<and>
   shallow_agent (\<lambda>s. s) (pystr ''DeepSeek'') = shallow_agent (\<lambda>s. s) (pystr ''deepseek'') \<and>
   deep_agent (\<lambda>s. s) (pystr ''DeepSeek'') = deep_agent (\<lambda>s. s) (pystr ''deepseek'')"
proof -
  have g: "llm_provider (do_lower (\<lambda>c. False) (\<lambda>c. False)) (pystr ''DeepSee'' @ [0x212A]) =
      Inr (pystr ''DeepSeek'')"
    by (rule llm_provider_lower(3)[OF str_lower_kelvin])
  have f: "llm_provider (do_lower (\<lambda>c. False) (\<lambda>c. False)) (pystr ''Mistral'') =
      Inl (KeyError (pystr ''Unknown LLM provider: '' @ pystr ''Mistral''))"
    using mistral_unsupported[unfolded
        dom_providers_module[of "do_lower (\<lambda>c. False) (\<lambda>c. False)", symmetric]]
    by (simp add: llm_provider_def llm_provider_unknown str_lower_Mistral domIff)
  have s: "pystr ''deepseek'' \<in> supported_keys"
    by (simp add: supported_keys_def)
  have c: "casing_of (pystr ''deepseek'') (pystr ''DeepSeek'')"
    by (simp add: casing_of_def pystr_def ascii_upper_def)
  show ?thesis
    using g f s c
      case_insensitive[of "\<lambda>c. False" "\<lambda>c. False" "pystr ''DeepSee'' @ [0x212A]"
        "pystr ''deepseek''" "\<lambda>s. s"]
      case_insensitive[of "\<lambda>c. False" "\<lambda>c. False" "pystr ''Mistral''"
        "pystr ''deepseek''" "\<lambda>s. s"]
      case_insensitive[of "\<lambda>c. False" "\<lambda>c. False" "pystr ''DeepSeek''"
        "pystr ''deepseek''" "\<lambda>s. s"]
    by (simp only: sum.inject sum.distinct simp_thms)
qed


section \<open>Success domain\<close>

lemma succeeds_llm_provider: "succeeds (llm_provider U k) = (str_lower U k \<in> supported_keys)"
  using llm_provider_cases[of U module_globals k] dom_providers_module[of U]
  by (auto simp: llm_provider_def succeeds_def domIff)

lemma succeeds_shallow_agent: "succeeds (shallow_agent U k) = (str_lower U k \<in> supported_keys)"
  using shallow_agent_cases[of U k] dom_shallow_module
  by (auto simp: succeeds_def domIff)

lemma succeeds_deep_agent: "succeeds (deep_agent U k) = (str_lower U k \<in> supported_keys)"
  using deep_agent_cases[of U k] dom_deep_module
  by (auto simp: succeeds_def domIff)

text \<open>
  C10. The three operations succeed on the same inputs: \<open>select_llm_provider\<close> succeeds
  iff \<open>select_shallow_thinking_agent\<close> does iff \<open>select_deep_thinking_agent\<close> does,
  namely iff the lowercased input is one of the three supported keys.
\<close>

theorem common_success_domain:
  "succeeds (llm_provider U k) = succeeds (shallow_agent U k) \<and>
   succeeds (shallow_agent U k) = succeeds (deep_agent U k) \<and>
   succeeds (llm_provider U k) = (str_lower U k \<in> supported_keys)"
  by (simp add: succeeds_llm_provider succeeds_shallow_agent succeeds_deep_agent)

theorem common_success_domain_witness:
  "succeeds (llm_provider (\<lambda>s. s) (pystr ''OpenAI'')) \<and>
   succeeds (shallow_agent (\<lambda>s. s) (pystr ''OpenAI'')) \<and>
   succeeds (deep_agent (\<lambda>s. s) (pystr ''OpenAI'')) \<and>
   \<not> succeeds (llm_provider (\<lambda>s. s) (pystr ''Mistral'')) \<and>
   \<not> succeeds (shallow_agent (\<lambda>s. s) (pystr ''Mistral'')) \<and>
   \<not> succeeds (deep_agent (\<lambda>s. s) (pystr ''Mistral''))"
proof -
  have a: "str_lower (\<lambda>s. s) (pystr ''OpenAI'') \<in> supported_keys"
    by (simp add: str_eval supported_keys_def)
  have b: "str_lower (\<lambda>s. s) (pystr ''Mistral'') \<notin> supported_keys"
    using mistral_unsupported by (simp add: str_lower_Mistral)
  show ?thesis
    using a b common_success_domain[of "\<lambda>s. s" "pystr ''OpenAI''"]
      common_success_domain[of "\<lambda>s. s" "pystr ''Mistral''"]
    by blast
qed

end
